theory Spec2Isabelle
  imports Complex_Main "HOL-Library.Char_ord" "HOL-Library.List_Lexorder"
begin

section \<open>Values of form fields\<close>

text \<open>
  The scripts of this repository are handlers that the Frappe form framework calls when a
  field of a document changes.  A field of type Link, Data or Date holds a string, or no
  value at all (\<open>undefined\<close> on a fresh document, \<open>null\<close> on a loaded one).
\<close>

datatype jstext = Undefined | Null | Str string

text \<open>JavaScript truthiness, as in \<open>if (frm.doc.currency)\<close>: the empty string is falsy.\<close>

fun truthy :: "jstext \<Rightarrow> bool" where
  "truthy (Str s) = (s \<noteq> [])"
| "truthy Undefined = False"
| "truthy Null = False"

text \<open>
  The operator \<open>!=\<close> on these values: \<open>undefined\<close> and \<open>null\<close> are loosely equal to each
  other and to nothing else; two strings are compared by content.  The operator \<open>!==\<close> is
  plain inequality of the values.
\<close>

fun loose_neq :: "jstext \<Rightarrow> jstext \<Rightarrow> bool" where
  "loose_neq (Str a) (Str b) = (a \<noteq> b)"
| "loose_neq (Str a) Undefined = True"
| "loose_neq (Str a) Null = True"
| "loose_neq Undefined (Str b) = True"
| "loose_neq Null (Str b) = True"
| "loose_neq Undefined Undefined = False"
| "loose_neq Undefined Null = False"
| "loose_neq Null Undefined = False"
| "loose_neq Null Null = False"

text \<open>
  The operator \<open><\<close> as the date handlers use it.  Two strings are compared by code units,
  which is the lexicographic order of the character lists; on dates written
  \<open>YYYY-MM-DD\<close> that is the order of the calendar.  When an operand has no value the
  comparison goes through numbers, and a date string is not a number, so the result is
  \<open>false\<close>.
\<close>

fun jslt :: "jstext \<Rightarrow> jstext \<Rightarrow> bool" where
  "jslt (Str a) (Str b) = (a < b)"
| "jslt (Str a) Undefined = False"
| "jslt (Str a) Null = False"
| "jslt Undefined b = False"
| "jslt Null b = False"

text \<open>String conversion in a concatenation such as \<open>"1 " + frm.doc.currency\<close>.\<close>

fun to_string :: "jstext \<Rightarrow> string" where
  "to_string (Str s) = s"
| "to_string Undefined = ''undefined''"
| "to_string Null = ''null''"

text \<open>
  A Float field, or the payload of a remote call, holds a number, a string or nothing.
  The type \<open>'n\<close> of numbers is left open: the handlers only multiply and add, and
  nothing below depends on a law of arithmetic.
\<close>

datatype 'n jsval = Missing | Num 'n | Text string

text \<open>
  What the handlers need from outside the scripts: \<open>erpnext.get_currency\<close> (the
  default currency of a company), \<open>frappe.defaults.get_default("Company")\<close>, and the
  number parser that \<open>flt\<close> applies to a string.
\<close>

record 'n env =
  get_currency :: "jstext \<Rightarrow> jstext"
  default_company :: jstext
  parse_float :: "string \<Rightarrow> 'n option"

text \<open>
  Modelled from the spec: \<open>flt\<close>, the framework's numeric cast.  A number is returned as
  it is; a string is parsed, and a string that is not a number gives 0; a missing value
  gives 0.
\<close>

fun flt :: "('n::zero) env \<Rightarrow> 'n jsval \<Rightarrow> 'n" where
  "flt env (Num x) = x"
| "flt env (Text s) = (case parse_float env s of Some x \<Rightarrow> x | None \<Rightarrow> 0)"
| "flt env Missing = 0"


section \<open>Travel Authorization Item and Travel Adjustment Item\<close>

text \<open>
  A row of the child table.  \<open>halt\<close> is a Check field (1 or 0); the handlers only test
  whether it is truthy.
\<close>

record date_row =
  from_date :: jstext
  to_date :: jstext
  halt :: bool

datatype item_doctype = Travel_Authorization_Item | Travel_Adjustment_Item

datatype date_field = From_date | To_date

text \<open>A call of \<open>msgprint\<close>: title, message and indicator.\<close>

datatype msg = Msgprint "string option" string "string option"

type_synonym item_state = "date_row \<times> msg list"

fun get_date :: "date_field \<Rightarrow> date_row \<Rightarrow> jstext" where
  "get_date From_date r = from_date r"
| "get_date To_date r = to_date r"

fun put_date :: "date_field \<Rightarrow> jstext \<Rightarrow> date_row \<Rightarrow> date_row" where
  "put_date From_date v r = r\<lparr>from_date := v\<rparr>"
| "put_date To_date v r = r\<lparr>to_date := v\<rparr>"

text \<open>
  \<open>trigger_item\<close> runs the handler that the script registers for a field of the row;
  the clauses are the bodies of \<open>from_date\<close> and \<open>to_date\<close> in
  \<open>travel_authorization.js\<close> and in the Travel Adjustment script.

  Modelled from the spec: \<open>set_value_item\<close> is \<open>frappe.model.set_value\<close>.  It
  writes the field and, when the value has changed, dispatches the handler of that
  field; an unchanged value is a no-op.  The first argument caps the depth of nested
  dispatch: at depth 0 the dispatch is given up with \<open>None\<close>.
\<close>

fun trigger_item :: "nat \<Rightarrow> item_doctype \<Rightarrow> date_field \<Rightarrow> item_state \<Rightarrow> item_state option"
and set_value_item ::
  "nat \<Rightarrow> item_doctype \<Rightarrow> date_field \<Rightarrow> jstext \<Rightarrow> item_state \<Rightarrow> item_state option"
where
  "trigger_item 0 dt f s = None"
| "trigger_item (Suc n) Travel_Authorization_Item From_date (child, out) =
     (if \<not> halt child \<and> loose_neq (from_date child) (to_date child)
      then (if truthy (from_date child)
            then set_value_item n Travel_Authorization_Item To_date (from_date child) (child, out)
            else Some (child, out))
      else Some (child, out))"
| "trigger_item (Suc n) Travel_Authorization_Item To_date (child, out) =
     (if truthy (from_date child)
      then (if jslt (to_date child) (from_date child)
            then set_value_item n Travel_Authorization_Item To_date (from_date child)
                   (child, out @ [Msgprint None ''To Date cannot be earlier than From Date'' None])
            else Some (child, out))
      else Some (child, out))"
| "trigger_item (Suc n) Travel_Adjustment_Item From_date (child, out) =
     (if truthy (from_date child) \<and> \<not> halt child \<and> from_date child \<noteq> to_date child
      then set_value_item n Travel_Adjustment_Item To_date (from_date child) (child, out)
      else Some (child, out))"
| "trigger_item (Suc n) Travel_Adjustment_Item To_date (child, out) =
     (if truthy (from_date child) \<and> jslt (to_date child) (from_date child)
      then set_value_item n Travel_Adjustment_Item To_date (from_date child)
             (child, out @ [Msgprint (Some ''Validation Error'')
                              ''To Date cannot be earlier than From Date'' (Some ''red'')])
      else Some (child, out))"
| "set_value_item n dt f v (child, out) =
     (if get_date f child = v then Some (child, out)
      else trigger_item n dt f (put_date f v child, out))"

text \<open>
  An edit of the row by the user.  The grid writes a date through \<open>set_value_item\<close>;
  no script handles a change of \<open>halt\<close>, which is only written.
\<close>

datatype edit = Edit_from_date jstext | Edit_to_date jstext | Edit_halt bool

fun apply_edit :: "nat \<Rightarrow> item_doctype \<Rightarrow> edit \<Rightarrow> item_state \<Rightarrow> item_state option" where
  "apply_edit n dt (Edit_from_date v) s = set_value_item n dt From_date v s"
| "apply_edit n dt (Edit_to_date v) s = set_value_item n dt To_date v s"
| "apply_edit n dt (Edit_halt b) (child, out) = Some (child\<lparr>halt := b\<rparr>, out)"

fun run_edits :: "nat \<Rightarrow> item_doctype \<Rightarrow> edit list \<Rightarrow> item_state \<Rightarrow> item_state option" where
  "run_edits n dt [] s = Some s"
| "run_edits n dt (e # es) s =
     (case apply_edit n dt e s of None \<Rightarrow> None | Some s' \<Rightarrow> run_edits n dt es s')"

text \<open>
  The order of the two dates: the row never has both set with \<open>to_date\<close> earlier than
  \<open>from_date\<close>.
\<close>

definition date_inv :: "date_row \<Rightarrow> bool" where
  "date_inv r = (\<not> (truthy (from_date r) \<and> truthy (to_date r) \<and> jslt (to_date r) (from_date r)))"

text \<open>
  \<open>unhalted h es\<close>: in the sequence \<open>es\<close>, run on a row whose \<open>halt\<close> is \<open>h\<close>, every
  edit of \<open>from_date\<close> is made while \<open>halt\<close> is off.
\<close>

fun unhalted :: "bool \<Rightarrow> edit list \<Rightarrow> bool" where
  "unhalted h [] = True"
| "unhalted h (Edit_from_date v # es) = (\<not> h \<and> unhalted h es)"
| "unhalted h (Edit_to_date v # es) = unhalted h es"
| "unhalted h (Edit_halt b # es) = unhalted b es"


section \<open>Travel Claim Item\<close>

record 'n claim_row =
  mileage_rate :: "'n jsval"
  distance :: "'n jsval"
  mileage_amount :: "'n jsval"
  amount :: "'n jsval"

datatype claim_field = Mileage_rate | Distance | Mileage_amount | Amount

datatype claim_event = Float_field claim_field | Calculate

fun get_float :: "claim_field \<Rightarrow> 'n claim_row \<Rightarrow> 'n jsval" where
  "get_float Mileage_rate r = mileage_rate r"
| "get_float Distance r = distance r"
| "get_float Mileage_amount r = mileage_amount r"
| "get_float Amount r = amount r"

fun put_float :: "claim_field \<Rightarrow> 'n jsval \<Rightarrow> 'n claim_row \<Rightarrow> 'n claim_row" where
  "put_float Mileage_rate v r = r\<lparr>mileage_rate := v\<rparr>"
| "put_float Distance v r = r\<lparr>distance := v\<rparr>"
| "put_float Mileage_amount v r = r\<lparr>mileage_amount := v\<rparr>"
| "put_float Amount v r = r\<lparr>amount := v\<rparr>"

text \<open>
  The handlers of \<open>travel_claim.js\<close> for a row: \<open>mileage_rate\<close> and \<open>distance\<close>
  trigger \<open>calculate\<close>.  In \<open>calculate\<close> the variable \<open>row\<close> is the row object
  itself, so the second statement reads the \<open>mileage_amount\<close> that the first one has
  just written.  \<open>set_value_claim_item\<close> is \<open>frappe.model.set_value\<close> as above; the
  script registers no handler for \<open>mileage_amount\<close> and \<open>amount\<close>.
\<close>

fun trigger_claim_item ::
  "nat \<Rightarrow> ('n::{zero,plus,times}) env \<Rightarrow> claim_event \<Rightarrow> 'n claim_row \<Rightarrow> 'n claim_row option"
and set_value_claim_item ::
  "nat \<Rightarrow> 'n env \<Rightarrow> claim_field \<Rightarrow> 'n jsval \<Rightarrow> 'n claim_row \<Rightarrow> 'n claim_row option"
where
  "trigger_claim_item 0 env ev r = None"
| "trigger_claim_item (Suc n) env (Float_field Mileage_rate) r =
     trigger_claim_item n env Calculate r"
| "trigger_claim_item (Suc n) env (Float_field Distance) r =
     trigger_claim_item n env Calculate r"
| "trigger_claim_item (Suc n) env Calculate r =
     (case set_value_claim_item n env Mileage_amount
             (Num (flt env (mileage_rate r) * flt env (distance r))) r of
        None \<Rightarrow> None
      | Some row \<Rightarrow>
          set_value_claim_item n env Amount
            (Num (flt env (mileage_amount row) + flt env (amount row))) row)"
| "trigger_claim_item (Suc n) env (Float_field Mileage_amount) r = Some r"
| "trigger_claim_item (Suc n) env (Float_field Amount) r = Some r"
| "set_value_claim_item n env f v r =
     (if get_float f r = v then Some r
      else trigger_claim_item n env (Float_field f) (put_float f v r))"


section \<open>Travel Claim and Travel Authorization\<close>

text \<open>
  The fields of the parent document that the handlers read or write, with the two
  display properties of the field \<open>exchange_rate\<close> that they set.
\<close>

record 'n form =
  employee :: jstext
  company :: jstext
  currency :: jstext
  reports_to :: jstext
  approver :: jstext
  exchange_rate :: "'n jsval"
  exchange_rate_hidden :: bool
  exchange_rate_description :: string

datatype form_doctype = Travel_Claim | Travel_Authorization

datatype text_field = Employee | Company | Currency | Reports_to | Approver

datatype form_event =
  Text_field text_field | Exchange_rate | Get_employee_currency | Set_reports_to | Set_approver

text \<open>
  A remote call that a handler has issued: the Salary Structure lookup of
  \<open>get_employee_currency\<close>, \<open>get_exchange_rate\<close> with its two currencies, and the
  two employee lookups of Travel Authorization.  The state of a form session is the
  document and the calls issued so far; the answer to a call arrives later and runs the
  callback of the call.
\<close>

datatype request =
  Salary_structure_currency jstext
| Get_exchange_rate jstext jstext
| Get_reports_to jstext
| Get_approver jstext

type_synonym 'n form_state = "'n form \<times> request list"

fun get_text :: "text_field \<Rightarrow> 'n form \<Rightarrow> jstext" where
  "get_text Employee d = employee d"
| "get_text Company d = company d"
| "get_text Currency d = currency d"
| "get_text Reports_to d = reports_to d"
| "get_text Approver d = approver d"

fun put_text :: "text_field \<Rightarrow> jstext \<Rightarrow> 'n form \<Rightarrow> 'n form" where
  "put_text Employee v d = d\<lparr>employee := v\<rparr>"
| "put_text Company v d = d\<lparr>company := v\<rparr>"
| "put_text Currency v d = d\<lparr>currency := v\<rparr>"
| "put_text Reports_to v d = d\<lparr>reports_to := v\<rparr>"
| "put_text Approver v d = d\<lparr>approver := v\<rparr>"

text \<open>The company currency as the handler \<open>currency\<close> resolves it.\<close>

definition company_currency :: "'n env \<Rightarrow> 'n form \<Rightarrow> jstext" where
  "company_currency env d =
     (if \<not> truthy (company d) then get_currency env (default_company env)
      else get_currency env (company d))"

text \<open>\<open>set_exchange_rate\<close> issues the call; its callback is defined further down.\<close>

definition set_exchange_rate :: "jstext \<Rightarrow> jstext \<Rightarrow> 'n form_state \<Rightarrow> 'n form_state" where
  "set_exchange_rate from_currency to_currency s =
     (fst s, snd s @ [Get_exchange_rate from_currency to_currency])"

text \<open>
  \<open>trigger_form\<close> runs the handler of an event of the parent form; \<open>set_value_form\<close>
  and \<open>set_value_exchange_rate\<close> are \<open>frm.set_value\<close> on a text field and on
  \<open>exchange_rate\<close>, with the same reading as \<open>set_value_item\<close>.  Travel Claim has no
  handlers \<open>set_reports_to\<close> and \<open>set_approver\<close>; an event without a handler does
  nothing.  \<open>frm.refresh_fields\<close> redraws the form and is left out.
\<close>

function (sequential) trigger_form ::
  "nat \<Rightarrow> form_doctype \<Rightarrow> ('n::{zero,one}) env \<Rightarrow> form_event \<Rightarrow> 'n form_state \<Rightarrow> 'n form_state option"
and set_value_form ::
  "nat \<Rightarrow> form_doctype \<Rightarrow> 'n env \<Rightarrow> text_field \<Rightarrow> jstext \<Rightarrow> 'n form_state \<Rightarrow> 'n form_state option"
and set_value_exchange_rate ::
  "nat \<Rightarrow> form_doctype \<Rightarrow> 'n env \<Rightarrow> 'n jsval \<Rightarrow> 'n form_state \<Rightarrow> 'n form_state option"
where
  "trigger_form 0 dt env ev s = None"
| "trigger_form (Suc n) Travel_Claim env (Text_field Employee) (d, reqs) =
     (if truthy (employee d) then trigger_form n Travel_Claim env Get_employee_currency (d, reqs)
      else Some (d, reqs))"
| "trigger_form (Suc n) Travel_Authorization env (Text_field Employee) (d, reqs) =
     (if truthy (employee d)
      then (case trigger_form n Travel_Authorization env Get_employee_currency (d, reqs) of
              None \<Rightarrow> None
            | Some s1 \<Rightarrow>
                (case trigger_form n Travel_Authorization env Set_reports_to s1 of
                   None \<Rightarrow> None
                 | Some s2 \<Rightarrow> trigger_form n Travel_Authorization env Set_approver s2))
      else Some (d, reqs))"
| "trigger_form (Suc n) dt env Get_employee_currency (d, reqs) =
     Some (d, reqs @ [Salary_structure_currency (employee d)])"
| "trigger_form (Suc n) dt env (Text_field Currency) (d, reqs) =
     (if truthy (currency d)
      then (if loose_neq (currency d) (company_currency env d)
            then Some (set_exchange_rate (currency d) (company_currency env d) (d, reqs))
            else (case set_value_exchange_rate n dt env (Num 1) (d, reqs) of
                    None \<Rightarrow> None
                  | Some (d', reqs') \<Rightarrow>
                      Some (d'\<lparr>exchange_rate_hidden := True, exchange_rate_description := []\<rparr>,
                            reqs')))
      else Some (d, reqs))"
| "trigger_form (Suc n) Travel_Authorization env Set_reports_to (d, reqs) =
     (if truthy (employee d) then Some (d, reqs @ [Get_reports_to (employee d)])
      else Some (d, reqs))"
| "trigger_form (Suc n) Travel_Authorization env Set_approver (d, reqs) =
     (if truthy (employee d) then Some (d, reqs @ [Get_approver (employee d)])
      else Some (d, reqs))"
| "trigger_form (Suc n) dt env ev s = Some s"
| "set_value_form n dt env f v (d, reqs) =
     (if get_text f d = v then Some (d, reqs)
      else trigger_form n dt env (Text_field f) (put_text f v d, reqs))"
| "set_value_exchange_rate n dt env v (d, reqs) =
     (if exchange_rate d = v then Some (d, reqs)
      else trigger_form n dt env Exchange_rate (d\<lparr>exchange_rate := v\<rparr>, reqs))"
  by pat_completeness auto

termination
  by (relation "measure (\<lambda>x. case x of
        Inl (n, _) \<Rightarrow> 2 * n
      | Inr (Inl (n, _)) \<Rightarrow> 2 * n + 1
      | Inr (Inr (n, _)) \<Rightarrow> 2 * n + 1)") auto

text \<open>
  The callbacks.  Each runs when the answer to its call arrives, on the document as it is
  at that moment.  The first argument of \<open>get_employee_currency_callback\<close> after the
  environment is \<open>r.currency\<close>; that of the others is \<open>r.message\<close>.  The callback of
  \<open>set_exchange_rate\<close> keeps the \<open>company_currency\<close> of its call and reads the
  document's currency afresh.
\<close>

definition get_employee_currency_callback ::
  "nat \<Rightarrow> form_doctype \<Rightarrow> ('n::{zero,one}) env \<Rightarrow> jstext \<Rightarrow> 'n form_state \<Rightarrow> 'n form_state option"
where
  "get_employee_currency_callback n dt env r_currency s =
     (if truthy r_currency then set_value_form n dt env Currency r_currency s
      else set_value_form n dt env Currency (get_currency env (company (fst s))) s)"

definition set_exchange_rate_callback ::
  "nat \<Rightarrow> form_doctype \<Rightarrow> ('n::{zero,one}) env \<Rightarrow> jstext \<Rightarrow> 'n jsval \<Rightarrow> 'n form_state
     \<Rightarrow> 'n form_state option"
where
  "set_exchange_rate_callback n dt env to_currency r_message s =
     (case set_value_exchange_rate n dt env (Num (flt env r_message)) s of
        None \<Rightarrow> None
      | Some (d, reqs) \<Rightarrow>
          Some (d\<lparr>exchange_rate_hidden := False,
                  exchange_rate_description :=
                    ''1 '' @ to_string (currency d) @ '' = [?] '' @ to_string to_currency\<rparr>,
                reqs))"

definition set_reports_to_callback ::
  "nat \<Rightarrow> ('n::{zero,one}) env \<Rightarrow> jstext \<Rightarrow> 'n form_state \<Rightarrow> 'n form_state option"
where
  "set_reports_to_callback n env r_message s =
     (if truthy r_message then set_value_form n Travel_Authorization env Reports_to r_message s
      else Some s)"

definition set_approver_callback ::
  "nat \<Rightarrow> ('n::{zero,one}) env \<Rightarrow> jstext \<Rightarrow> 'n form_state \<Rightarrow> 'n form_state option"
where
  "set_approver_callback n env r_message s =
     (if truthy r_message then set_value_form n Travel_Authorization env Approver r_message s
      else Some s)"


section \<open>Documents and rows used in the examples\<close>

text \<open>
  A site whose every company keeps its books in INR, and a site where the default company
  Acme keeps them in USD while the lookup without a company gives INR.
\<close>

definition inr_env :: "rat env" where
  "inr_env = \<lparr>get_currency = (\<lambda>c. Str ''INR''), default_company = Str ''Acme'',
              parse_float = (\<lambda>s. None)\<rparr>"

definition two_currency_env :: "rat env" where
  "two_currency_env =
     \<lparr>get_currency = (\<lambda>c. if c = Str ''Acme'' then Str ''USD'' else Str ''INR''),
      default_company = Str ''Acme'', parse_float = (\<lambda>s. None)\<rparr>"

definition blank_form :: "rat form" where
  "blank_form = \<lparr>employee = Undefined, company = Str ''Acme'', currency = Undefined,
                 reports_to = Undefined, approver = Undefined, exchange_rate = Missing,
                 exchange_rate_hidden = False, exchange_rate_description = []\<rparr>"

definition jan_row :: date_row where
  "jan_row = \<lparr>from_date = Str ''2025-01-10'', to_date = Str ''2025-01-10'', halt = False\<rparr>"


section \<open>Facts about the comparisons\<close>

lemma truthy_loose_neq: "truthy a \<Longrightarrow> loose_neq a b = (a \<noteq> b)"
  by (cases a; cases b) auto

lemma jslt_irrefl: "\<not> jslt a a"
  by (cases a) auto

lemma jslt_neq: "jslt a b \<Longrightarrow> a \<noteq> b"
  using jslt_irrefl by auto

section \<open>The date handlers\<close>

lemma from_date_handler:
  "\<not> halt child \<Longrightarrow> truthy (from_date child) \<Longrightarrow> from_date child \<noteq> to_date child \<Longrightarrow>
   trigger_item (Suc (Suc n)) dt From_date (child, out) =
     Some (child\<lparr>to_date := from_date child\<rparr>, out)"
  by (cases dt) (simp_all add: truthy_loose_neq jslt_irrefl)

lemma from_date_handler_same:
  "from_date child = to_date child \<Longrightarrow>
   trigger_item (Suc n) dt From_date (child, out) = Some (child, out)"
  by (cases dt; cases "to_date child") simp_all

lemma from_date_handler_unset:
  "\<not> truthy (from_date child) \<Longrightarrow>
   trigger_item (Suc n) dt From_date (child, out) = Some (child, out)"
  by (cases dt) simp_all

lemma from_date_handler_halt:
  "halt child \<Longrightarrow> trigger_item (Suc n) dt From_date (child, out) = Some (child, out)"
  by (cases dt) simp_all

lemma to_date_handler_clamp:
  "truthy (from_date child) \<Longrightarrow> jslt (to_date child) (from_date child) \<Longrightarrow>
   \<exists>title indicator. trigger_item (Suc (Suc n)) dt To_date (child, out) =
     Some (child\<lparr>to_date := from_date child\<rparr>,
           out @ [Msgprint title ''To Date cannot be earlier than From Date'' indicator])"
  by (cases dt) (auto simp add: jslt_irrefl dest: jslt_neq)

lemma to_date_handler_ok:
  "\<not> jslt (to_date child) (from_date child) \<Longrightarrow>
   trigger_item (Suc n) dt To_date (child, out) = Some (child, out)"
  by (cases dt) simp_all

lemma to_date_handler_inv:
  "\<exists>child' out'. trigger_item (Suc (Suc n)) dt To_date (child, out) = Some (child', out')
     \<and> date_inv child' \<and> halt child' = halt child"
proof (cases "truthy (from_date child) \<and> jslt (to_date child) (from_date child)")
  case True
  then obtain title indicator where
    "trigger_item (Suc (Suc n)) dt To_date (child, out) =
       Some (child\<lparr>to_date := from_date child\<rparr>,
             out @ [Msgprint title ''To Date cannot be earlier than From Date'' indicator])"
    using to_date_handler_clamp by blast
  then show ?thesis by (simp add: date_inv_def jslt_irrefl)
next
  case False
  have "trigger_item (Suc (Suc n)) dt To_date (child, out) = Some (child, out)"
    using False by (cases dt) auto
  then show ?thesis using False by (auto simp add: date_inv_def)
qed

lemma from_date_handler_inv:
  assumes "\<not> halt child"
  shows "\<exists>child' out'. trigger_item (Suc (Suc n)) dt From_date (child, out) = Some (child', out')
     \<and> date_inv child' \<and> halt child' = halt child"
proof (cases "truthy (from_date child)")
  case False
  then show ?thesis
    using from_date_handler_unset [of child "Suc n" dt out] by (simp add: date_inv_def)
next
  case set: True
  show ?thesis
  proof (cases "from_date child = to_date child")
    case True
    then show ?thesis
      using from_date_handler_same [of child "Suc n" dt out] jslt_irrefl [of "to_date child"]
      by (simp add: date_inv_def)
  next
    case False
    then show ?thesis
      using from_date_handler [OF assms set False, of n dt out]
      by (simp add: date_inv_def jslt_irrefl)
  qed
qed

lemma apply_edit_inv:
  assumes "date_inv child" and "unhalted (halt child) [e]"
  shows "\<exists>child' out'. apply_edit (Suc (Suc n)) dt e (child, out) = Some (child', out')
     \<and> date_inv child' \<and> halt child' = (case e of Edit_halt b \<Rightarrow> b | _ \<Rightarrow> halt child)"
proof (cases e)
  case (Edit_from_date v)
  show ?thesis
  proof (cases "from_date child = v")
    case True
    then show ?thesis using assms Edit_from_date by simp
  next
    case False
    have "\<not> halt (child\<lparr>from_date := v\<rparr>)" using assms Edit_from_date by simp
    from from_date_handler_inv [OF this, of n dt out]
    show ?thesis using False Edit_from_date by simp
  qed
next
  case (Edit_to_date v)
  show ?thesis
  proof (cases "to_date child = v")
    case True
    then show ?thesis using assms Edit_to_date by simp
  next
    case False
    from to_date_handler_inv [of n dt "child\<lparr>to_date := v\<rparr>" out]
    show ?thesis using False Edit_to_date by simp
  qed
next
  case (Edit_halt b)
  then show ?thesis using assms by (simp add: date_inv_def)
qed

lemma unhalted_head: "unhalted h (e # es) \<Longrightarrow> unhalted h [e]"
  by (cases e) simp_all

lemma unhalted_tail:
  "unhalted h (e # es) \<Longrightarrow> unhalted (case e of Edit_halt b \<Rightarrow> b | _ \<Rightarrow> h) es"
  by (cases e) auto

lemma unhalted_take: "unhalted h es \<Longrightarrow> unhalted h (take k es)"
proof (induction es arbitrary: h k)
  case Nil
  then show ?case by simp
next
  case (Cons e es)
  then show ?case by (cases k; cases e) simp_all
qed

lemma run_edits_inv:
  "date_inv child \<Longrightarrow> unhalted (halt child) es \<Longrightarrow>
   \<exists>child' out'. run_edits (Suc (Suc n)) dt es (child, out) = Some (child', out')
     \<and> date_inv child'"
proof (induction es arbitrary: child out)
  case Nil
  then show ?case by simp
next
  case (Cons e es)
  from apply_edit_inv [OF Cons.prems(1) unhalted_head [OF Cons.prems(2)], of n dt out]
  obtain c1 o1 where step: "apply_edit (Suc (Suc n)) dt e (child, out) = Some (c1, o1)"
    and inv: "date_inv c1"
    and h: "halt c1 = (case e of Edit_halt b \<Rightarrow> b | _ \<Rightarrow> halt child)"
    by blast
  have "unhalted (halt c1) es" using unhalted_tail [OF Cons.prems(2)] h by simp
  from Cons.IH [OF inv this, of o1] show ?case using step by simp
qed

section \<open>Writes and dispatch of the other two engines\<close>

lemma set_value_item_total:
  "\<exists>s'. set_value_item (Suc (Suc n)) dt f v s = Some s'"
  by (cases s; cases dt; cases f) (auto simp add: jslt_irrefl)

lemma trigger_item_total:
  "\<exists>s'. trigger_item (Suc (Suc n)) dt f s = Some s'"
  by (cases s; cases dt; cases f) (auto simp add: jslt_irrefl)

lemma set_value_claim_item_eq:
  "set_value_claim_item (Suc n) env Mileage_amount v r = Some (r\<lparr>mileage_amount := v\<rparr>)"
  "set_value_claim_item (Suc n) env Amount v r = Some (r\<lparr>amount := v\<rparr>)"
  by auto

lemma calculate_eq:
  "trigger_claim_item (Suc (Suc n)) env Calculate r =
     Some (r\<lparr>mileage_amount := Num (flt env (mileage_rate r) * flt env (distance r)),
             amount := Num (flt env (mileage_rate r) * flt env (distance r) + flt env (amount r))\<rparr>)"
  by (simp add: set_value_claim_item_eq del: set_value_claim_item.simps)

lemma trigger_claim_item_total:
  "\<exists>r'. trigger_claim_item (Suc (Suc (Suc n))) env ev r = Some r'"
proof (cases ev)
  case (Float_field f)
  then show ?thesis
    by (cases f) (simp_all add: set_value_claim_item_eq del: set_value_claim_item.simps)
next
  case Calculate
  then show ?thesis using calculate_eq [of "Suc n" env r] by simp
qed

lemma set_value_claim_item_total:
  "\<exists>r'. set_value_claim_item (Suc (Suc (Suc n))) env f v r = Some r'"
  using trigger_claim_item_total [of n env "Float_field f" "put_float f v r"] by simp

lemma set_value_exchange_rate_eq:
  "set_value_exchange_rate (Suc n) dt env v (d, reqs) = Some (d\<lparr>exchange_rate := v\<rparr>, reqs)"
  by auto

lemma currency_handler_foreign:
  "truthy (currency d) \<Longrightarrow> company_currency env d \<noteq> currency d \<Longrightarrow>
   trigger_form (Suc n) dt env (Text_field Currency) (d, reqs) =
     Some (d, reqs @ [Get_exchange_rate (currency d) (company_currency env d)])"
  by (cases dt) (auto simp add: truthy_loose_neq set_exchange_rate_def)

lemma currency_handler_same:
  "truthy (currency d) \<Longrightarrow> company_currency env d = currency d \<Longrightarrow>
   trigger_form (Suc (Suc n)) dt env (Text_field Currency) (d, reqs) =
     Some (d\<lparr>exchange_rate := Num 1, exchange_rate_hidden := True,
             exchange_rate_description := []\<rparr>, reqs)"
  by (cases dt)
     (simp_all add: truthy_loose_neq set_value_exchange_rate_eq del: set_value_exchange_rate.simps)

lemma currency_handler_unset:
  "\<not> truthy (currency d) \<Longrightarrow>
   trigger_form (Suc n) dt env (Text_field Currency) (d, reqs) = Some (d, reqs)"
  by (cases dt) simp_all

lemma employee_handler_unset:
  "\<not> truthy (employee d) \<Longrightarrow>
   trigger_form (Suc n) dt env (Text_field Employee) (d, reqs) = Some (d, reqs)"
  by (cases dt) simp_all

lemma currency_handler_total:
  "\<exists>s'. trigger_form (Suc (Suc n)) dt env (Text_field Currency) s = Some s'"
proof (cases s)
  case (Pair d reqs)
  show ?thesis
  proof (cases "truthy (currency d)")
    case False
    then show ?thesis using Pair currency_handler_unset [of d "Suc n" dt env reqs] by simp
  next
    case set: True
    show ?thesis
    proof (cases "company_currency env d = currency d")
      case True
      then show ?thesis using Pair currency_handler_same [OF set True, of n dt reqs] by simp
    next
      case False
      then show ?thesis using Pair currency_handler_foreign [OF set False, of "Suc n" dt reqs] by simp
    qed
  qed
qed

lemma trigger_form_total:
  "\<exists>s'. trigger_form (Suc (Suc (Suc n))) dt env ev s = Some s'"
proof (cases ev)
  case (Text_field f)
  show ?thesis
  proof (cases f)
    case Currency
    then show ?thesis using Text_field currency_handler_total [of "Suc n" dt env s] by simp
  next
    case Employee
    then show ?thesis using Text_field by (cases s; cases dt) simp_all
  qed (use Text_field in \<open>cases dt; simp\<close>)+
qed (cases s; cases dt; simp)+

lemma set_value_form_total:
  "\<exists>s'. set_value_form (Suc (Suc (Suc n))) dt env f v s = Some s'"
proof (cases s)
  case (Pair d reqs)
  then show ?thesis
    using trigger_form_total [of n dt env "Text_field f" "(put_text f v d, reqs)"] by simp
qed

lemma set_exchange_rate_callback_eq:
  "set_exchange_rate_callback (Suc n) dt env to_currency r_message (d, reqs) =
     Some (d\<lparr>exchange_rate := Num (flt env r_message), exchange_rate_hidden := False,
             exchange_rate_description :=
               ''1 '' @ to_string (currency d) @ '' = [?] '' @ to_string to_currency\<rparr>, reqs)"
  by (simp add: set_exchange_rate_callback_def set_value_exchange_rate_eq
           del: set_value_exchange_rate.simps)

lemma callbacks_total:
  "(\<exists>s'. get_employee_currency_callback (Suc (Suc (Suc n))) dt env r_currency s = Some s')
   \<and> (\<exists>s'. set_exchange_rate_callback (Suc (Suc (Suc n))) dt env to_currency r_message s = Some s')
   \<and> (\<exists>s'. set_reports_to_callback (Suc (Suc (Suc n))) env r_employee s = Some s')
   \<and> (\<exists>s'. set_approver_callback (Suc (Suc (Suc n))) env r_employee s = Some s')"
  using set_value_form_total [of n dt env Currency _ s]
    set_value_form_total [of n Travel_Authorization env _ _ s]
    set_exchange_rate_callback_eq [of "Suc (Suc n)" dt env to_currency r_message "fst s" "snd s"]
  by (simp add: get_employee_currency_callback_def set_reports_to_callback_def
        set_approver_callback_def del: set_value_form.simps)


section \<open>The claims\<close>

text \<open>
  C1.  For every row of a Travel Claim, firing the mileage rule writes
  \<open>mileage_amount = flt(mileage_rate) * flt(distance)\<close> and then
  \<open>amount = mileage_amount + flt(amount)\<close> with the old \<open>amount\<close>: it adds, it does not
  overwrite.  A change of \<open>mileage_rate\<close> or of \<open>distance\<close> fires the same rule, and a
  missing operand counts as 0.  With rate 2, distance 3 and amount 0 one firing gives
  \<open>mileage_amount = 6\<close> and \<open>amount = 6\<close>, and a second firing gives \<open>amount = 12\<close>.
\<close>

theorem calculate_accumulates:
  "trigger_claim_item (Suc (Suc n)) env Calculate r =
     Some (r\<lparr>mileage_amount := Num (flt env (mileage_rate r) * flt env (distance r)),
             amount := Num (flt env (mileage_rate r) * flt env (distance r) + flt env (amount r))\<rparr>)
   \<and> trigger_claim_item (Suc (Suc (Suc n))) env (Float_field Mileage_rate) r =
       trigger_claim_item (Suc (Suc n)) env Calculate r
   \<and> trigger_claim_item (Suc (Suc (Suc n))) env (Float_field Distance) r =
       trigger_claim_item (Suc (Suc n)) env Calculate r
   \<and> flt env Missing = 0
   \<and> trigger_claim_item (Suc (Suc n)) inr_env Calculate
        \<lparr>mileage_rate = Num 2, distance = Num 3, mileage_amount = m, amount = Num 0\<rparr> =
       Some \<lparr>mileage_rate = Num 2, distance = Num 3, mileage_amount = Num 6, amount = Num 6\<rparr>
   \<and> trigger_claim_item (Suc (Suc n)) inr_env Calculate
        \<lparr>mileage_rate = Num 2, distance = Num 3, mileage_amount = Num 6, amount = Num 6\<rparr> =
       Some \<lparr>mileage_rate = Num 2, distance = Num 3, mileage_amount = Num 6, amount = Num 12\<rparr>"
  by (simp add: calculate_eq del: trigger_claim_item.simps(4))

text \<open>
  C2.  When the currency of the document is set and differs from the company currency,
  the handler \<open>currency\<close> issues one call of the exchange-rate service, from the document's
  currency to the company currency, and changes nothing else.  When the answer arrives on
  that document, the callback sets \<open>exchange_rate\<close> to \<open>flt\<close> of the answer (0 for a missing
  answer and for a string that is not a number), unhides the field and sets the
  description \<open>1 FROM = [?] TO\<close>.
\<close>

theorem exchange_rate_lookup:
  assumes "truthy (currency d)" and "company_currency env d \<noteq> currency d"
  shows "trigger_form (Suc n) dt env (Text_field Currency) (d, reqs) =
           Some (d, reqs @ [Get_exchange_rate (currency d) (company_currency env d)])
       \<and> set_exchange_rate_callback (Suc n) dt env (company_currency env d) r_message (d, reqs') =
           Some (d\<lparr>exchange_rate := Num (flt env r_message), exchange_rate_hidden := False,
                   exchange_rate_description :=
                     ''1 '' @ to_string (currency d) @ '' = [?] ''
                       @ to_string (company_currency env d)\<rparr>, reqs')
       \<and> flt env Missing = 0
       \<and> (parse_float env s = None \<longrightarrow> flt env (Text s) = 0)"
  using currency_handler_foreign [OF assms] set_exchange_rate_callback_eq by simp

text \<open>
  The example of the specification: a USD document of a company that keeps INR, and the
  answers 83.5 and \<open>n/a\<close>.
\<close>

theorem exchange_rate_lookup_witness:
  "truthy (currency (blank_form\<lparr>currency := Str ''USD''\<rparr>))
   \<and> company_currency inr_env (blank_form\<lparr>currency := Str ''USD''\<rparr>)
       \<noteq> currency (blank_form\<lparr>currency := Str ''USD''\<rparr>)
   \<and> trigger_form (Suc 0) Travel_Claim inr_env (Text_field Currency)
        (blank_form\<lparr>currency := Str ''USD''\<rparr>, []) =
       Some (blank_form\<lparr>currency := Str ''USD''\<rparr>, [Get_exchange_rate (Str ''USD'') (Str ''INR'')])
   \<and> set_exchange_rate_callback (Suc 0) Travel_Claim inr_env (Str ''INR'') (Num (167 / 2))
        (blank_form\<lparr>currency := Str ''USD''\<rparr>, [Get_exchange_rate (Str ''USD'') (Str ''INR'')]) =
       Some (blank_form\<lparr>currency := Str ''USD'', exchange_rate := Num (167 / 2),
                         exchange_rate_hidden := False,
                         exchange_rate_description := ''1 USD = [?] INR''\<rparr>,
             [Get_exchange_rate (Str ''USD'') (Str ''INR'')])
   \<and> set_exchange_rate_callback (Suc 0) Travel_Claim inr_env (Str ''INR'') (Text ''n/a'')
        (blank_form\<lparr>currency := Str ''USD''\<rparr>, []) =
       Some (blank_form\<lparr>currency := Str ''USD'', exchange_rate := Num 0,
                         exchange_rate_hidden := False,
                         exchange_rate_description := ''1 USD = [?] INR''\<rparr>, [])"
proof -
  let ?d = "blank_form\<lparr>currency := Str ''USD''\<rparr>"
  have c: "company_currency inr_env ?d = Str ''INR''"
    by (simp add: company_currency_def inr_env_def blank_form_def)
  have h1: "truthy (currency ?d)" by simp
  have h2: "company_currency inr_env ?d \<noteq> currency ?d" using c by simp
  have p: "parse_float inr_env ''n/a'' = None" by (simp add: inr_env_def)
  show ?thesis
    using h1 h2 c
      exchange_rate_lookup [OF h1 h2, of 0 Travel_Claim "[]" "Num (167 / 2)"
        "[Get_exchange_rate (Str ''USD'') (Str ''INR'')]" "''n/a''"]
      exchange_rate_lookup [OF h1 h2, of 0 Travel_Claim "[]" "Text ''n/a''" "[]" "''n/a''"]
    by (simp add: p del: trigger_form.simps)
qed

text \<open>
  C3.  When the currency of the document is set and equals the company currency (that of
  the document's company, or of the default company when the document has none), the
  handler \<open>currency\<close> sets \<open>exchange_rate\<close> to 1, hides the field and empties its
  description; the list of issued calls is unchanged, so the exchange-rate service is not
  called.
\<close>

theorem exchange_rate_same_currency:
  assumes "truthy (currency d)" and "company_currency env d = currency d"
  shows "trigger_form (Suc (Suc n)) dt env (Text_field Currency) (d, reqs) =
           Some (d\<lparr>exchange_rate := Num 1, exchange_rate_hidden := True,
                   exchange_rate_description := []\<rparr>, reqs)
       \<and> company_currency env d =
           (if truthy (company d) then get_currency env (company d)
            else get_currency env (default_company env))"
  using currency_handler_same [OF assms] by (simp add: company_currency_def)

theorem exchange_rate_same_currency_witness:
  "truthy (currency (blank_form\<lparr>currency := Str ''INR''\<rparr>))
   \<and> company_currency inr_env (blank_form\<lparr>currency := Str ''INR''\<rparr>)
       = currency (blank_form\<lparr>currency := Str ''INR''\<rparr>)
   \<and> trigger_form (Suc (Suc 0)) Travel_Authorization inr_env (Text_field Currency)
        (blank_form\<lparr>currency := Str ''INR''\<rparr>, []) =
       Some (blank_form\<lparr>currency := Str ''INR'', exchange_rate := Num 1,
                         exchange_rate_hidden := True, exchange_rate_description := []\<rparr>, [])
   \<and> trigger_form (Suc (Suc 0)) Travel_Claim inr_env (Text_field Currency)
        (blank_form\<lparr>company := Undefined, currency := Str ''INR''\<rparr>, []) =
       Some (blank_form\<lparr>company := Undefined, currency := Str ''INR'', exchange_rate := Num 1,
                         exchange_rate_hidden := True, exchange_rate_description := []\<rparr>, [])"
proof -
  let ?d = "blank_form\<lparr>currency := Str ''INR''\<rparr>"
  let ?e = "blank_form\<lparr>company := Undefined, currency := Str ''INR''\<rparr>"
  have h1: "truthy (currency ?d)" and h1': "truthy (currency ?e)" by simp_all
  have h2: "company_currency inr_env ?d = currency ?d"
    and h2': "company_currency inr_env ?e = currency ?e"
    by (simp_all add: company_currency_def inr_env_def blank_form_def)
  show ?thesis
    using h1 h2 exchange_rate_same_currency [OF h1 h2, of 0 Travel_Authorization "[]"]
      exchange_rate_same_currency [OF h1' h2', of 0 Travel_Claim "[]"]
    by (simp del: trigger_form.simps)
qed

text \<open>
  C4.  The claim: when the Salary Structure lookup returns no currency, the document's
  currency becomes the company's default currency, keyed by the document's company or by
  the global default company when the document has none.  The callback of
  \<open>get_employee_currency\<close> passes \<open>frm.doc.company\<close> as it is, also when it is unset,
  whereas the handler \<open>currency\<close> of the same script resolves the default company first.
  On a document with an employee and no company, where the default company Acme keeps USD
  and the lookup without a company gives INR, the callback sets the currency to INR and
  not to USD; the handler \<open>currency\<close>, fired by that write, resolves USD as company
  currency and asks for the rate from INR to USD.
\<close>

theorem get_employee_currency_unset_company:
  "trigger_form (Suc (Suc 0)) Travel_Claim two_currency_env (Text_field Employee)
     (blank_form\<lparr>employee := Str ''EMP-1'', company := Undefined\<rparr>, []) =
     Some (blank_form\<lparr>employee := Str ''EMP-1'', company := Undefined\<rparr>,
           [Salary_structure_currency (Str ''EMP-1'')])
   \<and> get_employee_currency_callback (Suc (Suc 0)) Travel_Claim two_currency_env Undefined
       (blank_form\<lparr>employee := Str ''EMP-1'', company := Undefined\<rparr>,
        [Salary_structure_currency (Str ''EMP-1'')]) =
     Some (blank_form\<lparr>employee := Str ''EMP-1'', company := Undefined, currency := Str ''INR''\<rparr>,
           [Salary_structure_currency (Str ''EMP-1''),
            Get_exchange_rate (Str ''INR'') (Str ''USD'')])
   \<and> company_currency two_currency_env
       (blank_form\<lparr>employee := Str ''EMP-1'', company := Undefined\<rparr>) = Str ''USD''"
  by (simp add: get_employee_currency_callback_def two_currency_env_def blank_form_def
        company_currency_def set_exchange_rate_def)

text \<open>
  C5.  For a row of Travel Authorization Item or Travel Adjustment Item, the handler
  \<open>from_date\<close>, fired when \<open>halt\<close> is off, \<open>from_date\<close> is set and differs from
  \<open>to_date\<close>, sets \<open>to_date\<close> to \<open>from_date\<close> and changes nothing else; fired when
  \<open>halt\<close> is on it changes nothing.  On the row with both dates 2025-01-10 and \<open>halt\<close>
  on, writing \<open>from_date = 2025-01-15\<close> leaves \<open>to_date\<close> at 2025-01-10.
\<close>

theorem from_date_autofill:
  "(\<not> halt child \<and> truthy (from_date child) \<and> from_date child \<noteq> to_date child \<longrightarrow>
      trigger_item (Suc (Suc n)) dt From_date (child, out) =
        Some (child\<lparr>to_date := from_date child\<rparr>, out))
   \<and> (halt child \<longrightarrow>
      trigger_item (Suc (Suc n)) dt From_date (child, out) = Some (child, out))
   \<and> set_value_item (Suc (Suc n)) dt From_date (Str ''2025-01-15'') (jan_row\<lparr>halt := True\<rparr>, out) =
        Some (jan_row\<lparr>from_date := Str ''2025-01-15'', halt := True\<rparr>, out)
   \<and> to_date (jan_row\<lparr>from_date := Str ''2025-01-15'', halt := True\<rparr>) = Str ''2025-01-10''"
  using from_date_handler [of child n dt out] from_date_handler_halt [of child "Suc n" dt out]
    from_date_handler_halt [of "jan_row\<lparr>from_date := Str ''2025-01-15'', halt := True\<rparr>" "Suc n" dt out]
  by (simp add: jan_row_def del: trigger_item.simps)

theorem from_date_autofill_witness:
  "\<not> halt (jan_row\<lparr>from_date := Str ''2025-01-15''\<rparr>)
   \<and> truthy (from_date (jan_row\<lparr>from_date := Str ''2025-01-15''\<rparr>))
   \<and> from_date (jan_row\<lparr>from_date := Str ''2025-01-15''\<rparr>)
       \<noteq> to_date (jan_row\<lparr>from_date := Str ''2025-01-15''\<rparr>)
   \<and> trigger_item (Suc (Suc 0)) Travel_Authorization_Item From_date
        (jan_row\<lparr>from_date := Str ''2025-01-15''\<rparr>, []) =
       Some (jan_row\<lparr>from_date := Str ''2025-01-15'', to_date := Str ''2025-01-15''\<rparr>, [])
   \<and> halt (jan_row\<lparr>halt := True\<rparr>)
   \<and> trigger_item (Suc (Suc 0)) Travel_Adjustment_Item From_date
        (jan_row\<lparr>from_date := Str ''2025-01-15'', halt := True\<rparr>, []) =
       Some (jan_row\<lparr>from_date := Str ''2025-01-15'', halt := True\<rparr>, [])"
  using from_date_autofill [of "jan_row\<lparr>from_date := Str ''2025-01-15''\<rparr>" 0
      Travel_Authorization_Item "[]"]
    from_date_autofill [of "jan_row\<lparr>from_date := Str ''2025-01-15'', halt := True\<rparr>" 0
      Travel_Adjustment_Item "[]"]
  by (simp add: jan_row_def del: trigger_item.simps set_value_item.simps)

text \<open>
  C6.  For a row of either doctype with \<open>from_date\<close> set: the handler \<open>to_date\<close>, fired
  when \<open>to_date\<close> is earlier than \<open>from_date\<close>, prints the message
  \<open>To Date cannot be earlier than From Date\<close> and sets \<open>to_date\<close> to \<open>from_date\<close>; fired
  when \<open>to_date\<close> is not earlier, it prints nothing and changes no field.
\<close>

theorem to_date_clamp:
  "(truthy (from_date child) \<and> jslt (to_date child) (from_date child) \<longrightarrow>
      (\<exists>title indicator.
         trigger_item (Suc (Suc n)) dt To_date (child, out) =
           Some (child\<lparr>to_date := from_date child\<rparr>,
                 out @ [Msgprint title ''To Date cannot be earlier than From Date'' indicator])))
   \<and> (truthy (from_date child) \<and> \<not> jslt (to_date child) (from_date child) \<longrightarrow>
      trigger_item (Suc (Suc n)) dt To_date (child, out) = Some (child, out))"
  using to_date_handler_clamp [of child n dt out] to_date_handler_ok [of child "Suc n" dt out]
  by blast

theorem to_date_clamp_witness:
  "truthy (from_date (jan_row\<lparr>to_date := Str ''2025-01-05''\<rparr>))
   \<and> jslt (to_date (jan_row\<lparr>to_date := Str ''2025-01-05''\<rparr>))
        (from_date (jan_row\<lparr>to_date := Str ''2025-01-05''\<rparr>))
   \<and> (\<exists>title indicator.
        trigger_item (Suc (Suc 0)) Travel_Authorization_Item To_date
          (jan_row\<lparr>to_date := Str ''2025-01-05''\<rparr>, []) =
        Some (jan_row,
              [Msgprint title ''To Date cannot be earlier than From Date'' indicator]))
   \<and> truthy (from_date (jan_row\<lparr>to_date := Str ''2025-01-20''\<rparr>))
   \<and> \<not> jslt (to_date (jan_row\<lparr>to_date := Str ''2025-01-20''\<rparr>))
          (from_date (jan_row\<lparr>to_date := Str ''2025-01-20''\<rparr>))
   \<and> trigger_item (Suc (Suc 0)) Travel_Adjustment_Item To_date
        (jan_row\<lparr>to_date := Str ''2025-01-20''\<rparr>, []) =
       Some (jan_row\<lparr>to_date := Str ''2025-01-20''\<rparr>, [])"
  using to_date_clamp [of "jan_row\<lparr>to_date := Str ''2025-01-05''\<rparr>" 0
      Travel_Authorization_Item "[]"]
    to_date_clamp [of "jan_row\<lparr>to_date := Str ''2025-01-20''\<rparr>" 0 Travel_Adjustment_Item "[]"]
  by (simp add: jan_row_def del: trigger_item.simps)

text \<open>
  C7, as stated, fails.  The row with both dates 2025-01-10 and \<open>halt\<close> on has its dates
  in order; after the edit \<open>from_date = 2025-01-15\<close>, for either doctype, both dates are
  set and \<open>to_date\<close> is earlier than \<open>from_date\<close>.
\<close>

theorem date_inv_halt_counterexample:
  "date_inv (jan_row\<lparr>halt := True\<rparr>)
   \<and> run_edits (Suc (Suc 0)) Travel_Authorization_Item [Edit_from_date (Str ''2025-01-15'')]
        (jan_row\<lparr>halt := True\<rparr>, []) =
       Some (jan_row\<lparr>from_date := Str ''2025-01-15'', halt := True\<rparr>, [])
   \<and> run_edits (Suc (Suc 0)) Travel_Adjustment_Item [Edit_from_date (Str ''2025-01-15'')]
        (jan_row\<lparr>halt := True\<rparr>, []) =
       Some (jan_row\<lparr>from_date := Str ''2025-01-15'', halt := True\<rparr>, [])
   \<and> \<not> date_inv (jan_row\<lparr>from_date := Str ''2025-01-15'', halt := True\<rparr>)"
  by (simp add: jan_row_def date_inv_def)

text \<open>
  C7, amended.  On a row of either doctype whose dates are in order, after every step of
  every sequence of edits of \<open>from_date\<close>, \<open>to_date\<close> and \<open>halt\<close> in which each edit of
  \<open>from_date\<close> is made while \<open>halt\<close> is off, the dispatch returns and the dates are in
  order: whenever both are set, \<open>to_date\<close> is not earlier than \<open>from_date\<close>.  The
  theorem speaks of every prefix \<open>take k es\<close> of the sequence.
\<close>

theorem date_inv_unhalted:
  assumes "date_inv child" and "unhalted (halt child) es"
  shows "\<exists>child' out'. run_edits (Suc (Suc n)) dt (take k es) (child, out) = Some (child', out')
           \<and> date_inv child'"
  using run_edits_inv [OF assms(1) unhalted_take [OF assms(2)]] .

theorem date_inv_unhalted_witness:
  "date_inv jan_row
   \<and> unhalted (halt jan_row)
       [Edit_from_date (Str ''2025-01-15''), Edit_to_date (Str ''2025-01-12''), Edit_halt True,
        Edit_to_date (Str ''2025-01-20'')]
   \<and> (\<exists>child' out'.
        run_edits (Suc (Suc 0)) Travel_Authorization_Item
          (take 4 [Edit_from_date (Str ''2025-01-15''), Edit_to_date (Str ''2025-01-12''),
                   Edit_halt True, Edit_to_date (Str ''2025-01-20'')]) (jan_row, []) =
        Some (child', out') \<and> date_inv child')"
proof -
  have h1: "date_inv jan_row" by (simp add: jan_row_def date_inv_def)
  have h2: "unhalted (halt jan_row)
       [Edit_from_date (Str ''2025-01-15''), Edit_to_date (Str ''2025-01-12''), Edit_halt True,
        Edit_to_date (Str ''2025-01-20'')]"
    by (simp add: jan_row_def)
  show ?thesis
    using h1 h2 date_inv_unhalted [OF h1 h2, of 0 Travel_Authorization_Item 4 "[]"] by blast
qed

text \<open>
  C8.  Every dispatch terminates within three nested hops: with a depth cap of three or
  more, every handler of every doctype, every write of a field, and every callback returns
  a state, whatever the document, the row and the event.
\<close>

theorem dispatch_terminates:
  "(\<exists>s'. trigger_item (Suc (Suc (Suc n))) idt f s = Some s')
   \<and> (\<exists>s'. set_value_item (Suc (Suc (Suc n))) idt f v s = Some s')
   \<and> (\<exists>r'. trigger_claim_item (Suc (Suc (Suc n))) cenv cev r = Some r')
   \<and> (\<exists>r'. set_value_claim_item (Suc (Suc (Suc n))) cenv cf cv r = Some r')
   \<and> (\<exists>t'. trigger_form (Suc (Suc (Suc n))) dt env ev t = Some t')
   \<and> (\<exists>t'. set_value_form (Suc (Suc (Suc n))) dt env tf tv t = Some t')
   \<and> (\<exists>t'. set_value_exchange_rate (Suc (Suc (Suc n))) dt env rate t = Some t')
   \<and> (\<exists>t'. get_employee_currency_callback (Suc (Suc (Suc n))) dt env r_currency t = Some t')
   \<and> (\<exists>t'. set_exchange_rate_callback (Suc (Suc (Suc n))) dt env to_currency r_message t = Some t')
   \<and> (\<exists>t'. set_reports_to_callback (Suc (Suc (Suc n))) env r_employee t = Some t')
   \<and> (\<exists>t'. set_approver_callback (Suc (Suc (Suc n))) env r_employee t = Some t')"
proof -
  have "\<exists>t'. set_value_exchange_rate (Suc (Suc (Suc n))) dt env rate t = Some t'"
    using set_value_exchange_rate_eq [of "Suc (Suc n)" dt env rate "fst t" "snd t"] by simp
  then show ?thesis
    using trigger_item_total [of "Suc n" idt f s] set_value_item_total [of "Suc n" idt f v s]
      trigger_claim_item_total [of n cenv cev r] set_value_claim_item_total [of n cenv cf cv r]
      trigger_form_total [of n dt env ev t] set_value_form_total [of n dt env tf tv t]
      callbacks_total [of n dt env r_currency t to_currency r_message r_employee]
    by blast
qed

text \<open>
  C9, as stated, fails.  The currency of a Travel Claim is set to USD and then to EUR; both
  calls of the exchange-rate service are outstanding when the answer 83.5 to the first one
  arrives.  The callback writes it: \<open>exchange_rate\<close> becomes 83.5, under the description
  \<open>1 EUR = [?] INR\<close>.
\<close>

theorem stale_response_counterexample:
  "set_value_form (Suc (Suc 0)) Travel_Claim inr_env Currency (Str ''USD'') (blank_form, []) =
     Some (blank_form\<lparr>currency := Str ''USD''\<rparr>, [Get_exchange_rate (Str ''USD'') (Str ''INR'')])
   \<and> set_value_form (Suc (Suc 0)) Travel_Claim inr_env Currency (Str ''EUR'')
       (blank_form\<lparr>currency := Str ''USD''\<rparr>, [Get_exchange_rate (Str ''USD'') (Str ''INR'')]) =
     Some (blank_form\<lparr>currency := Str ''EUR''\<rparr>,
           [Get_exchange_rate (Str ''USD'') (Str ''INR''),
            Get_exchange_rate (Str ''EUR'') (Str ''INR'')])
   \<and> set_exchange_rate_callback (Suc (Suc 0)) Travel_Claim inr_env (Str ''INR'') (Num (167 / 2))
       (blank_form\<lparr>currency := Str ''EUR''\<rparr>,
        [Get_exchange_rate (Str ''USD'') (Str ''INR''),
         Get_exchange_rate (Str ''EUR'') (Str ''INR'')]) =
     Some (blank_form\<lparr>currency := Str ''EUR'', exchange_rate := Num (167 / 2),
                       exchange_rate_hidden := False,
                       exchange_rate_description := ''1 EUR = [?] INR''\<rparr>,
           [Get_exchange_rate (Str ''USD'') (Str ''INR''),
            Get_exchange_rate (Str ''EUR'') (Str ''INR'')])
   \<and> exchange_rate (blank_form\<lparr>currency := Str ''EUR''\<rparr>) \<noteq> Num (167 / 2)"
  by (simp add: set_exchange_rate_callback_def inr_env_def blank_form_def company_currency_def
        set_exchange_rate_def)

text \<open>
  C9, amended.  Every answer of the exchange-rate service is applied when it arrives,
  whatever calls have been issued since: the callback sets \<open>exchange_rate\<close> to \<open>flt\<close> of
  its answer, unhides the field and builds the description from the document's currency
  at that moment and the company currency of its own call.  Of two answers the one that
  arrives last determines \<open>exchange_rate\<close>, whichever call it answers.
\<close>

theorem every_response_applied:
  "set_exchange_rate_callback (Suc n) dt env to1 m1 (d, reqs) =
     Some (d\<lparr>exchange_rate := Num (flt env m1), exchange_rate_hidden := False,
             exchange_rate_description :=
               ''1 '' @ to_string (currency d) @ '' = [?] '' @ to_string to1\<rparr>, reqs)
   \<and> Option.bind (set_exchange_rate_callback (Suc n) dt env to1 m1 (d, reqs))
       (set_exchange_rate_callback (Suc n) dt env to2 m2) =
     Some (d\<lparr>exchange_rate := Num (flt env m2), exchange_rate_hidden := False,
             exchange_rate_description :=
               ''1 '' @ to_string (currency d) @ '' = [?] '' @ to_string to2\<rparr>, reqs)"
  by (simp add: set_exchange_rate_callback_eq)

text \<open>
  C10.  When the field that fired the handler is empty the handler does nothing: the
  handler \<open>employee\<close> on a document without employee issues no call and changes no
  field, and the handler \<open>currency\<close> on a document without currency leaves
  \<open>exchange_rate\<close>, its hidden flag and its description as they are.
\<close>

theorem empty_trigger_noop:
  "(\<not> truthy (employee d) \<longrightarrow>
      trigger_form (Suc n) dt env (Text_field Employee) (d, reqs) = Some (d, reqs))
   \<and> (\<not> truthy (currency d) \<longrightarrow>
      trigger_form (Suc n) dt env (Text_field Currency) (d, reqs) = Some (d, reqs))"
  using employee_handler_unset [of d n dt env reqs] currency_handler_unset [of d n dt env reqs]
  by blast

theorem empty_trigger_noop_witness:
  "\<not> truthy (employee blank_form)
   \<and> trigger_form (Suc 0) Travel_Authorization inr_env (Text_field Employee) (blank_form, []) =
       Some (blank_form, [])
   \<and> \<not> truthy (currency (blank_form\<lparr>currency := Str []\<rparr>))
   \<and> trigger_form (Suc 0) Travel_Claim inr_env (Text_field Currency)
        (blank_form\<lparr>currency := Str []\<rparr>, []) =
       Some (blank_form\<lparr>currency := Str []\<rparr>, [])"
  using empty_trigger_noop [of blank_form 0 Travel_Authorization inr_env "[]"]
    empty_trigger_noop [of "blank_form\<lparr>currency := Str []\<rparr>" 0 Travel_Claim inr_env "[]"]
  by (simp add: blank_form_def del: trigger_form.simps)

end
